theory Spec2Isabelle
  imports Main "HOL-Library.Sublist" "HOL-Library.Word"
begin

unbundle bit_operations_syntax

section \<open>dugaire: Dockerfile composition, build and list\<close>

text \<open>
  The development embeds \<^verbatim>\<open>src/dugaire/dugaire.py\<close>: the two click commands
  \<^verbatim>\<open>build\<close> and \<^verbatim>\<open>list_\<close>. Python strings are \<^typ>\<open>string\<close> (the UTF-8 bytes of
  the text), an optional click option is a \<^typ>\<open>string option\<close> (\<^verbatim>\<open>None\<close> when the
  option is not given).
\<close>

subsection \<open>Python primitives used by the commands\<close>

text \<open>
  \<^verbatim>\<open>if x:\<close> on an optional string: \<^verbatim>\<open>None\<close> and \<^verbatim>\<open>''\<close> are false, every other
  string is true.
\<close>

definition truthy :: "string option \<Rightarrow> bool" where
  "truthy x = (case x of None \<Rightarrow> False | Some s \<Rightarrow> s \<noteq> [])"

text \<open>
  \<^verbatim>\<open>s.replace(old, new)\<close>: every non-overlapping occurrence of \<^verbatim>\<open>old\<close>, found from
  left to right, is replaced by \<^verbatim>\<open>new\<close>; an empty \<^verbatim>\<open>old\<close> matches before every
  character and at the end.
\<close>

function replace :: "string \<Rightarrow> string \<Rightarrow> string \<Rightarrow> string" where
  "replace [] old new = (if old = [] then new else [])"
| "replace (c # s) old new =
     (if old = [] then new @ c # replace s old new
      else if prefix old (c # s) then new @ replace (drop (length old) (c # s)) old new
      else c # replace s old new)"
  by pat_completeness auto
termination
  by (relation "measure (\<lambda>(s, old, new). length s)") auto

text \<open>
  \<^verbatim>\<open>str(uuid.uuid4())\<close>. \<^verbatim>\<open>uuid4()\<close> is \<^verbatim>\<open>UUID(bytes=os.urandom(16), version=4)\<close>:
  the 16 random bytes read as a big-endian 128-bit integer, with the variant and the
  version bits overwritten. \<^verbatim>\<open>str\<close> prints the integer as 32 lower-case hexadecimal
  digits (\<^verbatim>\<open>'%032x'\<close>) in the groups 8-4-4-4-12.
\<close>

definition uuid4 :: "128 word \<Rightarrow> 128 word" where
  "uuid4 rnd =
    (let i = rnd;
         i = i AND NOT (push_bit 48 0xc000);
         i = i OR push_bit 48 0x8000;
         i = i AND NOT (push_bit 64 0xf000);
         i = i OR push_bit 76 4
     in i)"

definition hex_digit :: "nat \<Rightarrow> char" where
  "hex_digit d = ''0123456789abcdef'' ! (d mod 16)"

definition hex032 :: "128 word \<Rightarrow> string" where
  "hex032 i = map (\<lambda>k. hex_digit (unat (drop_bit (4 * (31 - k)) i))) [0..<32]"

definition uuid_str :: "128 word \<Rightarrow> string" where
  "uuid_str i =
    (let hex = hex032 i
     in take 8 hex @ ''-'' @ take 4 (drop 8 hex) @ ''-'' @ take 4 (drop 12 hex) @ ''-''
        @ take 4 (drop 16 hex) @ ''-'' @ drop 20 hex)"

subsection \<open>The collaborators of the commands\<close>

text \<open>
  The module \<^verbatim>\<open>util\<close> and the Jinja templates it loads are not part of the sources at
  hand, so they are parameters. A loaded template is its \<^verbatim>\<open>render\<close> method: a function
  from the keyword arguments to the rendered text.
\<close>

type_synonym template = "(string \<times> string) list \<Rightarrow> string"

record util =
  get_template :: "string \<Rightarrow> template"
  get_dugaire_image_label :: "string option \<Rightarrow> string"
  custom_tabulate :: "(string \<times> string list) list \<Rightarrow> string list \<Rightarrow> string"

text \<open>
  What the commands read from an image object of the Docker SDK: \<^verbatim>\<open>image.id\<close>,
  \<^verbatim>\<open>image.tags\<close>, \<^verbatim>\<open>image.attrs["Id"]\<close> and \<^verbatim>\<open>image.attrs["RepoTags"]\<close>.
\<close>

record image =
  img_id :: string
  img_tags :: "string list"
  attrs_Id :: string
  attrs_RepoTags :: "string list"

datatype error = DockerException string | IndexError

text \<open>
  The container runtime behind \<^verbatim>\<open>docker.from_env()\<close>: whether the client can be
  created, and what \<^verbatim>\<open>client.images.build(fileobj, tag)\<close> and
  \<^verbatim>\<open>client.images.list(filters={"label": ...})\<close> answer (\<^term>\<open>Inl\<close> is the message of
  the exception the SDK raises).
\<close>

record docker =
  from_env :: "string option"
  images_build :: "string \<Rightarrow> string \<Rightarrow> string + image"
  images_list :: "string list \<Rightarrow> string + image list"

text \<open>
  The observable effects of a command: the calls it makes to the Docker SDK, the number
  of 16-byte reads from the random source, and what it writes to standard output
  (\<^verbatim>\<open>click.echo(v)\<close> and \<^verbatim>\<open>print(s)\<close>).
\<close>

datatype api_call = FromEnv | ImagesBuild string string | ImagesList "string list"

datatype out = Echo "string option" | Print string

record world =
  docker_calls :: "api_call list"
  urandom_reads :: nat
  stdout :: "out list"

definition echo :: "string option \<Rightarrow> world \<Rightarrow> world" where
  "echo v w = w\<lparr>stdout := stdout w @ [Echo v]\<rparr>"

definition print :: "string \<Rightarrow> world \<Rightarrow> world" where
  "print s w = w\<lparr>stdout := stdout w @ [Print s]\<rparr>"

definition call :: "api_call \<Rightarrow> world \<Rightarrow> world" where
  "call c w = w\<lparr>docker_calls := docker_calls w @ [c]\<rparr>"

text \<open>\<^verbatim>\<open>str(uuid.uuid4())\<close> against a random source \<open>rnd\<close>, whose \<open>n\<close>-th read is \<open>rnd n\<close>.\<close>

definition str_uuid4 :: "(nat \<Rightarrow> 128 word) \<Rightarrow> world \<Rightarrow> string \<times> world" where
  "str_uuid4 rnd w =
     (uuid_str (uuid4 (rnd (urandom_reads w))), w\<lparr>urandom_reads := urandom_reads w + 1\<rparr>)"

subsection \<open>The command \<^verbatim>\<open>build\<close>\<close>

text \<open>Lines 110 to 112: the download URL handed to the kubectl template.\<close>

definition kubectl_url :: "string \<Rightarrow> string" where
  "kubectl_url with_kubectl =
    (let url = ''https://storage.googleapis.com/kubernetes-release/release/$(curl -s https://storage.googleapis.com/kubernetes-release/release/stable.txt)/bin/linux/amd64/kubectl'';
         url = (if with_kubectl \<noteq> ''latest''
                then ''https://storage.googleapis.com/kubernetes-release/release/v'' @ with_kubectl @ ''/bin/linux/amd64/kubectl''
                else url)
     in url)"

text \<open>
  Lines 94 to 115: the text of the Dockerfile, accumulated in \<^verbatim>\<open>dockerfile\<close>. The
  parameter \<^verbatim>\<open>from_\<close> is written \<open>from'\<close>.
\<close>

definition build_dockerfile ::
  "util \<Rightarrow> string \<Rightarrow> string option \<Rightarrow> string option \<Rightarrow> string option \<Rightarrow> string" where
  "build_dockerfile u from' apt pip3 with_kubectl =
    (let dockerfile = [];
         template = get_template u ''base.j2'';
         dockerfile = dockerfile
           @ template [(''from_'', from'),
                       (''label'', get_dugaire_image_label u (Some ''dockerfile''))];
         dockerfile =
           (case apt of
              None \<Rightarrow> dockerfile
            | Some apt_s \<Rightarrow>
                if apt_s = [] then dockerfile
                else (let packages = replace apt_s '','' '' '';
                          template = get_template u ''apt.j2''
                      in dockerfile @ template [(''packages'', packages)]));
         dockerfile =
           (case pip3 of
              None \<Rightarrow> dockerfile
            | Some pip3_s \<Rightarrow>
                if pip3_s = [] then dockerfile
                else (let packages = replace pip3_s '','' '' '';
                          template = get_template u ''pip3.j2''
                      in dockerfile @ template [(''packages'', packages)]));
         dockerfile =
           (case with_kubectl of
              None \<Rightarrow> dockerfile
            | Some with_kubectl_s \<Rightarrow>
                if with_kubectl_s = [] then dockerfile
                else (let url = kubectl_url with_kubectl_s;
                          template = get_template u ''with_kubectl.j2''
                      in dockerfile @ template [(''url'', url)]))
     in dockerfile)"

text \<open>Lines 136 to 141: the three tests on \<^verbatim>\<open>output\<close>, one after the other.\<close>

definition build_output ::
  "string \<Rightarrow> string option \<Rightarrow> string option \<Rightarrow> string \<Rightarrow> world \<Rightarrow> world" where
  "build_output output image_id image_name dockerfile w =
    (let w = (if output = ''image-id'' then echo image_id w else w);
         w = (if output = ''image-name'' then echo image_name w else w);
         w = (if output = ''dockerfile'' then echo (Some dockerfile) w else w)
     in w)"

text \<open>
  Lines 122 to 126: the tag submitted to the runtime. The sentinel \<^verbatim>\<open>random\<close> draws two
  UUIDs, one after the other.
\<close>

definition build_image_name :: "(nat \<Rightarrow> 128 word) \<Rightarrow> string \<Rightarrow> world \<Rightarrow> string \<times> world" where
  "build_image_name rnd name w =
    (let image_name = name
     in if image_name = ''random''
        then (let (u1, w) = str_uuid4 rnd w;
                  random_name = take 8 u1;
                  (u2, w) = str_uuid4 rnd w;
                  random_tag = take 8 u2
              in (''dug-'' @ random_name @ '':'' @ random_tag, w))
        else (image_name, w))"

text \<open>
  The command, lines 94 to 141. The result is the exception that ends the command, if
  any, and the effects made until then. \<^verbatim>\<open>BytesIO(dockerfile.encode('utf-8'))\<close> is the
  text itself, strings being their UTF-8 bytes here.
\<close>

definition build ::
  "util \<Rightarrow> docker \<Rightarrow> (nat \<Rightarrow> 128 word) \<Rightarrow> world \<Rightarrow>
   string \<Rightarrow> string option \<Rightarrow> string option \<Rightarrow> string option \<Rightarrow> string \<Rightarrow> bool \<Rightarrow> string \<Rightarrow>
   error option \<times> world" where
  "build u d rnd w from' apt pip3 with_kubectl name dry_run output =
    (let dockerfile = build_dockerfile u from' apt pip3 with_kubectl;
         image_id = None;
         image_name = None
     in if \<not> dry_run
        then (let f = dockerfile;
                  w = call FromEnv w
              in case from_env d of
                   Some msg \<Rightarrow> (Some (DockerException msg), w)
                 | None \<Rightarrow>
                     (let (image_name, w) = build_image_name rnd name w;
                          w = call (ImagesBuild f image_name) w
                      in case images_build d f image_name of
                           Inl msg \<Rightarrow> (Some (DockerException msg), w)
                         | Inr img \<Rightarrow>
                             (let image_id = attrs_Id img
                              in case attrs_RepoTags img of
                                   [] \<Rightarrow> (Some IndexError, w)
                                 | image_name # _ \<Rightarrow>
                                     (None, build_output output (Some image_id)
                                              (Some image_name) dockerfile w))))
        else (None, build_output output image_id image_name dockerfile w))"

subsection \<open>The command \<^verbatim>\<open>list\<close>\<close>

text \<open>Lines 155 to 162: the loop over the images, appending one row for each.\<close>

fun list_rows ::
  "bool \<Rightarrow> image list \<Rightarrow> (string \<times> string list) list \<Rightarrow> (string \<times> string list) list" where
  "list_rows short [] print_images = print_images"
| "list_rows short (img # images) print_images =
    (let image_id = img_id img;
         image_id = (if short then take 12 (replace image_id ''sha256:'' []) else image_id);
         image_tag = img_tags img
     in list_rows short images (print_images @ [(image_id, image_tag)]))"

text \<open>The command \<^verbatim>\<open>list_\<close>, lines 151 to 166 (the name cannot end in an underscore here).\<close>

definition list_cmd :: "util \<Rightarrow> docker \<Rightarrow> world \<Rightarrow> bool \<Rightarrow> error option \<times> world" where
  "list_cmd u d w short =
    (let w = call FromEnv w
     in case from_env d of
          Some msg \<Rightarrow> (Some (DockerException msg), w)
        | None \<Rightarrow>
            (let filters = [get_dugaire_image_label u None];
                 w = call (ImagesList filters) w
             in case images_list d filters of
                  Inl msg \<Rightarrow> (Some (DockerException msg), w)
                | Inr images \<Rightarrow>
                    (let print_images = list_rows short images []
                     in if length print_images \<noteq> 0
                        then (None, print (custom_tabulate u print_images
                                             [''Image ID'', ''Image tags'']) w)
                        else (None, echo (Some ''No images built with dugaire found.'') w))))"

subsection \<open>Notions of the specification\<close>

text \<open>
  The four kinds of fragment, in the order of the specification, and, for a request, which
  of them are present and what each of them is: its template rendered on the request's
  field. An absent option stands for the empty string.
\<close>

datatype fragment_kind = Base | Apt | Pip | Kubectl

definition val :: "string option \<Rightarrow> string" where
  "val x = (case x of None \<Rightarrow> [] | Some s \<Rightarrow> s)"

definition present ::
  "string option \<Rightarrow> string option \<Rightarrow> string option \<Rightarrow> fragment_kind \<Rightarrow> bool" where
  "present apt pip3 with_kubectl k =
    (case k of Base \<Rightarrow> True | Apt \<Rightarrow> truthy apt | Pip \<Rightarrow> truthy pip3
     | Kubectl \<Rightarrow> truthy with_kubectl)"

definition fragment ::
  "util \<Rightarrow> string \<Rightarrow> string option \<Rightarrow> string option \<Rightarrow> string option \<Rightarrow> fragment_kind \<Rightarrow>
   string" where
  "fragment u from' apt pip3 with_kubectl k =
    (case k of
       Base \<Rightarrow> get_template u ''base.j2''
                 [(''from_'', from'), (''label'', get_dugaire_image_label u (Some ''dockerfile''))]
     | Apt \<Rightarrow> get_template u ''apt.j2'' [(''packages'', replace (val apt) '','' '' '')]
     | Pip \<Rightarrow> get_template u ''pip3.j2'' [(''packages'', replace (val pip3) '','' '' '')]
     | Kubectl \<Rightarrow> get_template u ''with_kubectl.j2'' [(''url'', kubectl_url (val with_kubectl))])"

text \<open>
  A template embeds a variable when, whatever the keyword arguments, the value given for
  the variable stands in the rendered text.
\<close>

definition embeds :: "template \<Rightarrow> string \<Rightarrow> bool" where
  "embeds t k = (\<forall>ctx v. map_of ctx k = Some v \<longrightarrow> sublist v (t ctx))"

text \<open>\<^verbatim>\<open>sep.join(ps)\<close>: how a caller writes a list of packages with a separator.\<close>

fun join :: "string \<Rightarrow> string list \<Rightarrow> string" where
  "join sep [] = []"
| "join sep [p] = p"
| "join sep (p # q # ps) = p @ sep @ join sep (q # ps)"

text \<open>
  The identifier the runtime gives an image: \<^verbatim>\<open>sha256:\<close> and the 64 hexadecimal digits of
  the digest.
\<close>

definition sha256_id :: "string \<Rightarrow> bool" where
  "sha256_id i = (take 7 i = ''sha256:'' \<and> length i = 71
                  \<and> list_all (\<lambda>c. c \<in> set ''0123456789abcdef'') (drop 7 i))"

text \<open>
  What a command that started in \<open>w\<close> and ended in \<open>w'\<close> wrote to standard output, and
  the Dockerfile texts it submitted to the runtime.
\<close>

definition written :: "world \<Rightarrow> world \<Rightarrow> out list" where
  "written w w' = drop (length (stdout w)) (stdout w')"

definition submitted :: "world \<Rightarrow> world \<Rightarrow> string list" where
  "submitted w w' =
     concat (map (\<lambda>c. case c of ImagesBuild f t \<Rightarrow> [f] | _ \<Rightarrow> [])
                 (drop (length (docker_calls w)) (docker_calls w')))"

text \<open>Inputs on which the theorems are exercised.\<close>

definition util0 :: util where
  "util0 =
    \<lparr>get_template = (\<lambda>n ctx. ''# '' @ n @ concat (map (\<lambda>(k, v). '' '' @ v) ctx) @ ''; ''),
     get_dugaire_image_label = (\<lambda>x. ''builtwith=dugaire''),
     custom_tabulate = (\<lambda>rows headers. concat headers @ concat (map fst rows))\<rparr>"

definition world0 :: world where
  "world0 = \<lparr>docker_calls = [], urandom_reads = 0, stdout = []\<rparr>"

definition image0 :: image where
  "image0 =
    \<lparr>img_id = ''sha256:0123456789abcdef0123456789abcdef0123456789abcdef0123456789abcdef'',
     img_tags = [''dug-1a2b3c4d:5e6f7a8b''],
     attrs_Id = ''sha256:0123456789abcdef0123456789abcdef0123456789abcdef0123456789abcdef'',
     attrs_RepoTags = [''dug-1a2b3c4d:5e6f7a8b'']\<rparr>"

definition docker0 :: docker where
  "docker0 =
    \<lparr>from_env = None,
     images_build = (\<lambda>f t. Inr (image0\<lparr>img_tags := [t], attrs_RepoTags := [t]\<rparr>)),
     images_list = (\<lambda>labels. Inr [image0])\<rparr>"

definition docker1 :: docker where
  "docker1 =
    \<lparr>from_env = None,
     images_build = (\<lambda>f t. Inl ''build failed''),
     images_list = (\<lambda>labels. Inr [])\<rparr>"

definition world1 :: world where
  "world1 = \<lparr>docker_calls = [FromEnv], urandom_reads = 7, stdout = [Print ''earlier'']\<rparr>"

definition rnd0 :: "nat \<Rightarrow> 128 word" where
  "rnd0 n = (if n = 0 then 0x123e4567e89b12d3f456426614174000
             else 0xfedcba9876543210fedcba9876543210)"

section \<open>Properties\<close>

subsection \<open>Auxiliary facts\<close>

lemma build_dockerfile_fragments:
  "build_dockerfile u from' apt pip3 with_kubectl =
     fragment u from' apt pip3 with_kubectl Base
     @ (if truthy apt then fragment u from' apt pip3 with_kubectl Apt else [])
     @ (if truthy pip3 then fragment u from' apt pip3 with_kubectl Pip else [])
     @ (if truthy with_kubectl then fragment u from' apt pip3 with_kubectl Kubectl else [])"
  by (simp add: build_dockerfile_def fragment_def truthy_def val_def Let_def split: option.splits)

lemma build_output_effects:
  "docker_calls (build_output output i n t w) = docker_calls w"
  "urandom_reads (build_output output i n t w) = urandom_reads w"
  "stdout (build_output output i n t w) =
     stdout w @ (if output = ''image-id'' then [Echo i] else [])
       @ (if output = ''image-name'' then [Echo n] else [])
       @ (if output = ''dockerfile'' then [Echo (Some t)] else [])"
  by (simp_all add: build_output_def echo_def Let_def)

lemma build_dry_run:
  "build u d rnd w from' apt pip3 with_kubectl name True output =
     (None, build_output output None None (build_dockerfile u from' apt pip3 with_kubectl) w)"
  by (simp add: build_def Let_def)

lemma length_hex032: "length (hex032 i) = 32"
  by (simp add: hex032_def)

lemma take8_uuid_str: "take 8 (uuid_str i) = take 8 (hex032 i)"
  by (simp add: uuid_str_def Let_def length_hex032)

lemma hex_digit_in: "hex_digit d \<in> set ''0123456789abcdef''"
  unfolding hex_digit_def by (rule nth_mem) simp

lemma set_hex032: "set (hex032 i) \<subseteq> set ''0123456789abcdef''"
  unfolding hex032_def using hex_digit_in by auto

lemma build_image_name_random:
  "build_image_name rnd ''random'' w =
     (''dug-'' @ take 8 (uuid_str (uuid4 (rnd (urandom_reads w)))) @ '':''
        @ take 8 (uuid_str (uuid4 (rnd (urandom_reads w + 1)))),
      w\<lparr>urandom_reads := urandom_reads w + 2\<rparr>)"
  by (simp add: build_image_name_def str_uuid4_def Let_def)

lemma build_image_name_explicit:
  "name \<noteq> ''random'' \<Longrightarrow> build_image_name rnd name w = (name, w)"
  by (simp add: build_image_name_def Let_def)

lemma build_submits:
  assumes "from_env d = None"
  shows "docker_calls (snd (build u d rnd w from' apt pip3 with_kubectl name False output)) =
           docker_calls w @ [FromEnv, ImagesBuild (build_dockerfile u from' apt pip3 with_kubectl)
                                         (fst (build_image_name rnd name (call FromEnv w)))]"
    and "urandom_reads (snd (build u d rnd w from' apt pip3 with_kubectl name False output)) =
           urandom_reads (snd (build_image_name rnd name (call FromEnv w)))"
  using assms
  by (cases "name = ''random''";
      simp add: build_def Let_def call_def build_output_effects build_image_name_random
                build_image_name_explicit split: sum.splits list.splits)+

lemma replace_char:
  "replace s [c] new = concat (map (\<lambda>x. if x = c then new else [x]) s)"
  by (induction s) auto

lemma replace_comma_free:
  "CHR '','' \<notin> set p \<Longrightarrow> replace (p @ s) '','' '' '' = p @ replace s '','' '' ''"
  by (induction p) (auto simp: replace_char)

lemma replace_join:
  "\<forall>p\<in>set ps. CHR '','' \<notin> set p \<Longrightarrow> replace (join '','' ps) '','' '' '' = join '' '' ps"
proof (induction ps rule: induct_list012)
  case 1
  then show ?case by simp
next
  case (2 p)
  then show ?case using replace_comma_free[of p "[]"] by simp
next
  case (3 p q ps)
  then show ?case
    using replace_comma_free[of p "'','' @ join '','' (q # ps)"] by simp
qed

lemma replace_no_head:
  "c \<notin> set s \<Longrightarrow> replace s (c # old) new = s"
  by (induction s) auto

lemma sha256_id_short:
  assumes "sha256_id i"
  shows "take 12 (replace i ''sha256:'' []) = take 12 (drop 7 i)"
    and "length (take 12 (replace i ''sha256:'' [])) = 12"
proof -
  define h where "h = drop 7 i"
  from assms have i: "i = ''sha256:'' @ h"
    unfolding sha256_id_def h_def by (metis append_take_drop_id)
  from assms have hex: "\<forall>c\<in>set h. c \<in> set ''0123456789abcdef''"
    unfolding sha256_id_def h_def by (simp add: list_all_iff)
  have "CHR ''s'' \<notin> set h"
  proof
    assume "CHR ''s'' \<in> set h"
    with hex have "CHR ''s'' \<in> set ''0123456789abcdef''" by blast
    then show False by simp
  qed
  then have r: "replace i ''sha256:'' [] = h"
    unfolding i by (simp add: replace_no_head)
  from assms have "length h = 64"
    unfolding sha256_id_def h_def by simp
  with r show "take 12 (replace i ''sha256:'' []) = take 12 (drop 7 i)"
    and "length (take 12 (replace i ''sha256:'' [])) = 12"
    by (simp_all add: h_def)
qed

lemma list_rows_map:
  "list_rows short images acc =
     acc @ map (\<lambda>img. (if short then take 12 (replace (img_id img) ''sha256:'' []) else img_id img,
                        img_tags img)) images"
  by (induction images arbitrary: acc) (simp_all add: Let_def)

subsection \<open>Facts about the effects of \<^verbatim>\<open>build\<close> and about the templates\<close>

lemma written_build_output:
  "written w (build_output output i n t w) =
     (if output = ''image-id'' then [Echo i] else [])
       @ (if output = ''image-name'' then [Echo n] else [])
       @ (if output = ''dockerfile'' then [Echo (Some t)] else [])"
  by (simp add: written_def build_output_effects)

lemma written_build_dry:
  "written w (snd (build u d rnd w from' apt pip3 with_kubectl name True output)) =
     (if output = ''image-id'' then [Echo None] else [])
       @ (if output = ''image-name'' then [Echo None] else [])
       @ (if output = ''dockerfile''
          then [Echo (Some (build_dockerfile u from' apt pip3 with_kubectl))] else [])"
  by (simp add: build_dry_run written_build_output)

lemma submitted_build:
  "from_env d = None \<Longrightarrow>
   submitted w (snd (build u d rnd w from' apt pip3 with_kubectl name False output)) =
     [build_dockerfile u from' apt pip3 with_kubectl]"
  by (simp add: submitted_def build_submits)

lemma base_fragment_sublist:
  "sublist (fragment u from' apt pip3 with_kubectl Base)
     (build_dockerfile u from' apt pip3 with_kubectl)"
  by (simp add: build_dockerfile_fragments)

lemma apt_fragment_sublist:
  "truthy apt \<Longrightarrow>
   sublist (fragment u from' apt pip3 with_kubectl Apt)
     (build_dockerfile u from' apt pip3 with_kubectl)"
  by (simp add: build_dockerfile_fragments)

lemma pip_fragment_sublist:
  assumes "truthy pip3"
  shows "sublist (fragment u from' apt pip3 with_kubectl Pip)
           (build_dockerfile u from' apt pip3 with_kubectl)"
proof -
  have "sublist (fragment u from' apt pip3 with_kubectl Pip)
          ((fragment u from' apt pip3 with_kubectl Base
            @ (if truthy apt then fragment u from' apt pip3 with_kubectl Apt else []))
           @ fragment u from' apt pip3 with_kubectl Pip
           @ (if truthy with_kubectl then fragment u from' apt pip3 with_kubectl Kubectl else []))"
    by (rule sublist_appendI)
  then show ?thesis
    using assms by (simp add: build_dockerfile_fragments)
qed

lemma kubectl_fragment_sublist:
  assumes "truthy with_kubectl"
  shows "sublist (fragment u from' apt pip3 with_kubectl Kubectl)
           (build_dockerfile u from' apt pip3 with_kubectl)"
proof -
  have "sublist (fragment u from' apt pip3 with_kubectl Kubectl)
          ((fragment u from' apt pip3 with_kubectl Base
            @ (if truthy apt then fragment u from' apt pip3 with_kubectl Apt else [])
            @ (if truthy pip3 then fragment u from' apt pip3 with_kubectl Pip else []))
           @ fragment u from' apt pip3 with_kubectl Kubectl)"
    by (rule sublist_append_leftI)
  then show ?thesis
    using assms by (simp add: build_dockerfile_fragments)
qed

lemma kubectl_fragment_last:
  "v \<noteq> [] \<Longrightarrow>
   build_dockerfile u from' apt pip3 (Some v) =
     build_dockerfile u from' apt pip3 None
       @ get_template u ''with_kubectl.j2'' [(''url'', kubectl_url v)]"
  by (simp add: build_dockerfile_fragments fragment_def truthy_def val_def)

lemma embeds_sublist:
  "embeds t k \<Longrightarrow> sublist v (t [(k, v)])"
  by (simp add: embeds_def)

lemma kubectl_url_version:
  "v \<noteq> ''latest'' \<Longrightarrow>
   kubectl_url v =
     ''https://storage.googleapis.com/kubernetes-release/release/'' @ (''v'' @ v)
       @ ''/bin/linux/amd64/kubectl''"
  by (simp add: kubectl_url_def)

lemma kubectl_url_no_substitution:
  assumes "CHR ''$'' \<notin> set v" and "v \<noteq> ''latest''"
  shows "\<not> sublist ''$('' (kubectl_url v)"
proof
  assume "sublist ''$('' (kubectl_url v)"
  then have "set ''$('' \<subseteq> set (kubectl_url v)" by (rule set_mono_sublist)
  then have "CHR ''$'' \<in> set (kubectl_url v)" by simp
  with assms show False by (simp add: kubectl_url_version)
qed

lemma embeds_util0: "embeds (get_template util0 n) k"
proof -
  have "sublist v (concat (map (\<lambda>(k, v). '' '' @ v) ctx))" if "(k, v) \<in> set ctx" for ctx v
  proof -
    from that obtain xs ys where "ctx = xs @ (k, v) # ys" by (meson split_list)
    then have "concat (map (\<lambda>(k, v). '' '' @ v) ctx) =
                 (concat (map (\<lambda>(k, v). '' '' @ v) xs) @ '' '') @ v
                   @ concat (map (\<lambda>(k, v). '' '' @ v) ys)"
      by simp
    then show ?thesis by (metis sublist_appendI)
  qed
  then have "sublist v (''# '' @ n @ concat (map (\<lambda>(k, v). '' '' @ v) ctx) @ ''; '')"
    if "(k, v) \<in> set ctx" for ctx v
    using that by (metis sublist_appendI sublist_order.order_trans append_assoc)
  then show ?thesis
    by (auto simp add: embeds_def util0_def dest: map_of_SomeD)
qed

text \<open>
  The textual form agrees with Python on two values: \<^verbatim>\<open>str(UUID(int=0, version=4))\<close>
  and the version-4 form of a value with all groups distinct.
\<close>

lemma uuid_str_zero: "uuid_str (uuid4 0) = ''00000000-0000-4000-8000-000000000000''"
  by (simp add: uuid4_def uuid_str_def Let_def hex032_def hex_digit_def
        upt_rec[of _ "numeral _"] drop_bit_eq_div unat_div unat_numeral)

lemma uuid4_example:
  "uuid4 0x123e4567e89b12d3f456426614174000 = 0x123e4567e89b42d3b456426614174000"
  by (simp add: uuid4_def Let_def)

lemma uuid_str_example:
  "uuid_str (uuid4 0x123e4567e89b12d3f456426614174000)
     = ''123e4567-e89b-42d3-b456-426614174000''"
  unfolding uuid4_example
  by (simp add: uuid_str_def Let_def hex032_def hex_digit_def
        upt_rec[of _ "numeral _"] drop_bit_eq_div unat_div unat_numeral)

subsection \<open>The Dockerfile text\<close>

text \<open>
  Claim C2. The text that \<^verbatim>\<open>build\<close> composes is the concatenation of the fragments that are
  present, taken in the fixed order base, apt, pip, kubectl; this holds for every request,
  hence for each of the eight subsets of the optional fragments.
\<close>

theorem dockerfile_is_ordered_concatenation:
  "build_dockerfile u from' apt pip3 with_kubectl =
     concat (map (fragment u from' apt pip3 with_kubectl)
                 (filter (present apt pip3 with_kubectl) [Base, Apt, Pip, Kubectl]))"
  by (simp add: build_dockerfile_fragments present_def)

text \<open>
  Claim C3. An optional fragment is in the text exactly when its input is given and not
  empty. Whatever the three optional templates \<open>ta\<close>, \<open>tp\<close> and \<open>tk\<close> render, the text is
  the base fragment followed by the rendering of those templates whose input is a
  non-empty string, and holds nothing of a template whose input is absent or empty.
\<close>

theorem fragment_present_iff_input_nonempty:
  "build_dockerfile
      (u\<lparr>get_template := (get_template u)
            (''apt.j2'' := ta, ''pip3.j2'' := tp, ''with_kubectl.j2'' := tk)\<rparr>)
      from' apt pip3 with_kubectl =
     fragment u from' apt pip3 with_kubectl Base
     @ (if truthy apt then ta [(''packages'', replace (val apt) '','' '' '')] else [])
     @ (if truthy pip3 then tp [(''packages'', replace (val pip3) '','' '' '')] else [])
     @ (if truthy with_kubectl then tk [(''url'', kubectl_url (val with_kubectl))] else [])"
  by (simp add: build_dockerfile_fragments fragment_def)

text \<open>
  Claim C1. The Dockerfile text is a function of the base image, the apt list, the pip list
  and the kubectl version alone. Two runs of \<^verbatim>\<open>build\<close> that agree on these four fields
  (and on the templates) print the same text under \<^verbatim>\<open>--dry-run --output=dockerfile\<close>, and
  submit the same text to the runtime when they build, whatever the image names, output
  modes, runtimes, random sources and earlier effects of the two runs are.
\<close>

theorem dockerfile_text_deterministic:
  "written wa (snd (build u da rnda wa from' apt pip3 with_kubectl namea True ''dockerfile''))
     = written wb (snd (build u db rndb wb from' apt pip3 with_kubectl nameb True ''dockerfile''))
   \<and> (from_env da = None \<and> from_env db = None \<longrightarrow>
        submitted wa (snd (build u da rnda wa from' apt pip3 with_kubectl namea False outputa))
          = submitted wb (snd (build u db rndb wb from' apt pip3 with_kubectl nameb False outputb)))"
  by (simp add: written_build_dry submitted_build)

theorem dockerfile_text_deterministic_witness:
  "from_env docker0 = None \<and> from_env docker1 = None
   \<and> written world0 (snd (build util0 docker0 rnd0 world0 ''ubuntu:18.04'' (Some ''curl,nano'')
                              None (Some ''latest'') ''random'' True ''dockerfile''))
       = written world1 (snd (build util0 docker1 (\<lambda>n. 0) world1 ''ubuntu:18.04''
                                (Some ''curl,nano'') None (Some ''latest'') ''myimage:0.0.1'' True
                                ''dockerfile''))
   \<and> submitted world0 (snd (build util0 docker0 rnd0 world0 ''ubuntu:18.04'' (Some ''curl,nano'')
                                None (Some ''latest'') ''random'' False ''image-id''))
       = submitted world1 (snd (build util0 docker1 (\<lambda>n. 0) world1 ''ubuntu:18.04''
                                  (Some ''curl,nano'') None (Some ''latest'') ''myimage:0.0.1''
                                  False ''image-name''))"
proof -
  have a: "from_env docker0 = None" by (simp add: docker0_def)
  have b: "from_env docker1 = None" by (simp add: docker1_def)
  note t = dockerfile_text_deterministic[where u = util0 and da = docker0 and db = docker1
      and wa = world0 and wb = world1
      and rnda = rnd0 and rndb = "\<lambda>n. 0" and from' = "''ubuntu:18.04''"
      and apt = "Some ''curl,nano''" and ?pip3.0 = None and with_kubectl = "Some ''latest''"
      and namea = "''random''" and nameb = "''myimage:0.0.1''"
      and outputa = "''image-id''" and outputb = "''image-name''"]
  from t have w: "written world0 (snd (build util0 docker0 rnd0 world0 ''ubuntu:18.04''
                     (Some ''curl,nano'') None (Some ''latest'') ''random'' True ''dockerfile''))
       = written world1 (snd (build util0 docker1 (\<lambda>n. 0) world1 ''ubuntu:18.04''
                                (Some ''curl,nano'') None (Some ''latest'') ''myimage:0.0.1'' True
                                ''dockerfile''))"
    by (rule conjunct1)
  from t a b have s: "submitted world0 (snd (build util0 docker0 rnd0 world0 ''ubuntu:18.04''
                     (Some ''curl,nano'') None (Some ''latest'') ''random'' False ''image-id''))
       = submitted world1 (snd (build util0 docker1 (\<lambda>n. 0) world1 ''ubuntu:18.04''
                                  (Some ''curl,nano'') None (Some ''latest'') ''myimage:0.0.1''
                                  False ''image-name''))"
    by blast
  show ?thesis
    by (intro conjI a b w s)
qed

subsection \<open>The kubectl fragment\<close>

text \<open>
  Claim C4. For \<^verbatim>\<open>latest\<close> the URL handed to the kubectl template holds the command
  substitution that looks the stable release up when the image is built, and no versioned
  release path. For a version \<open>v\<close> other than \<^verbatim>\<open>latest\<close> the URL is the download path of
  release \<open>v\<close> prefixed with the letter v, and it holds no command substitution when \<open>v\<close>
  holds no dollar sign (as every version number does). In both cases the kubectl fragment
  is the template rendered on that URL, at the end of the text, and holds the URL when the
  template embeds its variable.
\<close>

theorem kubectl_latest_resolves_version_embeds:
  "kubectl_url ''latest''
     = ''https://storage.googleapis.com/kubernetes-release/release/''
       @ ''$(curl -s https://storage.googleapis.com/kubernetes-release/release/stable.txt)''
       @ ''/bin/linux/amd64/kubectl''
   \<and> \<not> sublist ''release/v'' (kubectl_url ''latest'')
   \<and> (v \<noteq> ''latest'' \<longrightarrow>
        kubectl_url v
          = ''https://storage.googleapis.com/kubernetes-release/release/'' @ (''v'' @ v)
            @ ''/bin/linux/amd64/kubectl'')
   \<and> (v \<noteq> ''latest'' \<and> CHR ''$'' \<notin> set v \<longrightarrow> \<not> sublist ''$('' (kubectl_url v))
   \<and> (v \<noteq> [] \<longrightarrow>
        build_dockerfile u from' apt pip3 (Some v)
          = build_dockerfile u from' apt pip3 None
            @ get_template u ''with_kubectl.j2'' [(''url'', kubectl_url v)])
   \<and> (v \<noteq> [] \<and> embeds (get_template u ''with_kubectl.j2'') ''url'' \<longrightarrow>
        sublist (kubectl_url v) (build_dockerfile u from' apt pip3 (Some v)))"
proof -
  have l1: "kubectl_url ''latest''
           = ''https://storage.googleapis.com/kubernetes-release/release/''
             @ ''$(curl -s https://storage.googleapis.com/kubernetes-release/release/stable.txt)''
             @ ''/bin/linux/amd64/kubectl''"
    by (simp add: kubectl_url_def)
  have l2: "\<not> sublist ''release/v'' (kubectl_url ''latest'')"
    by (simp add: kubectl_url_def sublist_code)
  have v1: "v \<noteq> ''latest'' \<longrightarrow>
        kubectl_url v
          = ''https://storage.googleapis.com/kubernetes-release/release/'' @ (''v'' @ v)
            @ ''/bin/linux/amd64/kubectl''"
    using kubectl_url_version[of v] by blast
  have v2: "v \<noteq> ''latest'' \<and> CHR ''$'' \<notin> set v \<longrightarrow> \<not> sublist ''$('' (kubectl_url v)"
    using kubectl_url_no_substitution[of v] by blast
  have v3: "v \<noteq> [] \<longrightarrow>
        build_dockerfile u from' apt pip3 (Some v)
          = build_dockerfile u from' apt pip3 None
            @ get_template u ''with_kubectl.j2'' [(''url'', kubectl_url v)]"
    using kubectl_fragment_last[of v u from' apt pip3] by blast
  have v4: "v \<noteq> [] \<and> embeds (get_template u ''with_kubectl.j2'') ''url'' \<longrightarrow>
        sublist (kubectl_url v) (build_dockerfile u from' apt pip3 (Some v))"
  proof
    assume h: "v \<noteq> [] \<and> embeds (get_template u ''with_kubectl.j2'') ''url''"
    from h have e: "sublist (kubectl_url v)
                      (get_template u ''with_kubectl.j2'' [(''url'', kubectl_url v)])"
      by (simp add: embeds_sublist)
    from h v3 have q: "build_dockerfile u from' apt pip3 (Some v)
          = build_dockerfile u from' apt pip3 None
            @ get_template u ''with_kubectl.j2'' [(''url'', kubectl_url v)]"
      by blast
    show "sublist (kubectl_url v) (build_dockerfile u from' apt pip3 (Some v))"
      unfolding q by (rule sublist_order.order_trans[OF e sublist_append_leftI])
  qed
  show ?thesis
    by (intro conjI l1 l2 v1 v2 v3 v4)
qed

theorem kubectl_latest_resolves_version_embeds_witness:
  "''1.17.0'' \<noteq> ''latest'' \<and> ''1.17.0'' \<noteq> [] \<and> CHR ''$'' \<notin> set ''1.17.0''
   \<and> embeds (get_template util0 ''with_kubectl.j2'') ''url''
   \<and> kubectl_url ''1.17.0''
       = ''https://storage.googleapis.com/kubernetes-release/release/v1.17.0/bin/linux/amd64/kubectl''
   \<and> sublist ''v1.17.0'' (kubectl_url ''1.17.0'')
   \<and> \<not> sublist ''$('' (kubectl_url ''1.17.0'')
   \<and> sublist (kubectl_url ''1.17.0'')
         (build_dockerfile util0 ''ubuntu:18.04'' None None (Some ''1.17.0''))
   \<and> build_dockerfile util0 ''ubuntu:18.04'' None None (Some ''1.17.0'')
       = ''# base.j2 ubuntu:18.04 builtwith=dugaire; # with_kubectl.j2 https://storage.googleapis.com/kubernetes-release/release/v1.17.0/bin/linux/amd64/kubectl; ''"
proof -
  have a: "''1.17.0'' \<noteq> ''latest''" by simp
  have b: "''1.17.0'' \<noteq> []" by simp
  have c: "CHR ''$'' \<notin> set ''1.17.0''" by simp
  have d: "embeds (get_template util0 ''with_kubectl.j2'') ''url''" by (rule embeds_util0)
  note t = kubectl_latest_resolves_version_embeds[where v = "''1.17.0''" and u = util0
        and from' = "''ubuntu:18.04''" and apt = None and ?pip3.0 = None]
  from t a have u: "kubectl_url ''1.17.0''
       = ''https://storage.googleapis.com/kubernetes-release/release/v1.17.0/bin/linux/amd64/kubectl''"
    by simp
  have s: "sublist ''v1.17.0'' (kubectl_url ''1.17.0'')"
    unfolding u by (simp add: sublist_code)
  from t a c have n: "\<not> sublist ''$('' (kubectl_url ''1.17.0'')" by blast
  from t b d have v: "sublist (kubectl_url ''1.17.0'')
         (build_dockerfile util0 ''ubuntu:18.04'' None None (Some ''1.17.0''))" by blast
  from t b have "build_dockerfile util0 ''ubuntu:18.04'' None None (Some ''1.17.0'')
       = build_dockerfile util0 ''ubuntu:18.04'' None None None
         @ get_template util0 ''with_kubectl.j2'' [(''url'', kubectl_url ''1.17.0'')]"
    by blast
  then have e: "build_dockerfile util0 ''ubuntu:18.04'' None None (Some ''1.17.0'')
       = ''# base.j2 ubuntu:18.04 builtwith=dugaire; # with_kubectl.j2 https://storage.googleapis.com/kubernetes-release/release/v1.17.0/bin/linux/amd64/kubectl; ''"
    unfolding u by (simp add: build_dockerfile_def util0_def Let_def)
  show ?thesis
    by (intro conjI a b c d u s n v e)
qed

subsection \<open>Dry run\<close>

text \<open>
  Claim C5. With \<^verbatim>\<open>--dry-run\<close> the command ends normally without a single call to the
  container runtime, whatever the output mode. In mode \<^verbatim>\<open>dockerfile\<close> it prints the
  Dockerfile text; in the modes \<^verbatim>\<open>image-id\<close> and \<^verbatim>\<open>image-name\<close> it prints \<^verbatim>\<open>None\<close>. The
  text holds the base image reference when the base template embeds its variable
  \<^verbatim>\<open>from_\<close>, and then it is not empty, the reference being a non-empty string.
\<close>

theorem dry_run_makes_no_call:
  "fst (build u d rnd w from' apt pip3 with_kubectl name True output) = None
   \<and> docker_calls (snd (build u d rnd w from' apt pip3 with_kubectl name True output))
       = docker_calls w
   \<and> written w (snd (build u d rnd w from' apt pip3 with_kubectl name True ''dockerfile''))
       = [Echo (Some (build_dockerfile u from' apt pip3 with_kubectl))]
   \<and> written w (snd (build u d rnd w from' apt pip3 with_kubectl name True ''image-id''))
       = [Echo None]
   \<and> written w (snd (build u d rnd w from' apt pip3 with_kubectl name True ''image-name''))
       = [Echo None]
   \<and> (embeds (get_template u ''base.j2'') ''from_'' \<longrightarrow>
        sublist from' (build_dockerfile u from' apt pip3 with_kubectl))
   \<and> (embeds (get_template u ''base.j2'') ''from_'' \<and> from' \<noteq> [] \<longrightarrow>
        build_dockerfile u from' apt pip3 with_kubectl \<noteq> [])"
proof -
  have s: "sublist from' (build_dockerfile u from' apt pip3 with_kubectl)"
    if "embeds (get_template u ''base.j2'') ''from_''"
  proof -
    have "sublist from' (fragment u from' apt pip3 with_kubectl Base)"
      unfolding fragment_def using that by (simp add: embeds_def)
    then show ?thesis
      by (rule sublist_order.order_trans[OF _ base_fragment_sublist])
  qed
  have n: "embeds (get_template u ''base.j2'') ''from_'' \<and> from' \<noteq> [] \<longrightarrow>
        build_dockerfile u from' apt pip3 with_kubectl \<noteq> []"
    using s by auto
  have c: "fst (build u d rnd w from' apt pip3 with_kubectl name True output) = None"
    "docker_calls (snd (build u d rnd w from' apt pip3 with_kubectl name True output))
       = docker_calls w"
    by (simp_all add: build_dry_run build_output_effects)
  have o: "written w (snd (build u d rnd w from' apt pip3 with_kubectl name True ''dockerfile''))
             = [Echo (Some (build_dockerfile u from' apt pip3 with_kubectl))]"
    "written w (snd (build u d rnd w from' apt pip3 with_kubectl name True ''image-id''))
       = [Echo None]"
    "written w (snd (build u d rnd w from' apt pip3 with_kubectl name True ''image-name''))
       = [Echo None]"
    by (simp_all add: written_build_dry)
  show ?thesis
    using s by (intro conjI c o n) blast
qed

theorem dry_run_makes_no_call_witness:
  "embeds (get_template util0 ''base.j2'') ''from_'' \<and> ''ubuntu:18.04'' \<noteq> []
   \<and> docker_calls (snd (build util0 docker0 rnd0 world1 ''ubuntu:18.04'' (Some ''curl,nano'')
                           None None ''random'' True ''dockerfile''))
       = [FromEnv]
   \<and> written world1 (snd (build util0 docker0 rnd0 world1 ''ubuntu:18.04'' (Some ''curl,nano'')
                              None None ''random'' True ''dockerfile''))
       = [Echo (Some ''# base.j2 ubuntu:18.04 builtwith=dugaire; # apt.j2 curl nano; '')]
   \<and> sublist ''ubuntu:18.04''
         (build_dockerfile util0 ''ubuntu:18.04'' (Some ''curl,nano'') None None)
   \<and> build_dockerfile util0 ''ubuntu:18.04'' (Some ''curl,nano'') None None \<noteq> []
   \<and> written world1 (snd (build util0 docker0 rnd0 world1 ''ubuntu:18.04'' (Some ''curl,nano'')
                              None None ''random'' True ''image-id''))
       = [Echo None]"
proof -
  have a: "embeds (get_template util0 ''base.j2'') ''from_''" by (rule embeds_util0)
  have b: "''ubuntu:18.04'' \<noteq> []" by simp
  note t = dry_run_makes_no_call[where u = util0 and from' = "''ubuntu:18.04''"
      and d = docker0 and rnd = rnd0 and w = world1
      and apt = "Some ''curl,nano''" and ?pip3.0 = None and with_kubectl = None
      and name = "''random''" and ?output = "''dockerfile''"]
  have e: "build_dockerfile util0 ''ubuntu:18.04'' (Some ''curl,nano'') None None
             = ''# base.j2 ubuntu:18.04 builtwith=dugaire; # apt.j2 curl nano; ''"
    by (simp add: build_dockerfile_def util0_def Let_def)
  from t have c: "docker_calls (snd (build util0 docker0 rnd0 world1 ''ubuntu:18.04''
                     (Some ''curl,nano'') None None ''random'' True ''dockerfile'')) = [FromEnv]"
    by (simp add: world1_def)
  from t have o: "written world1 (snd (build util0 docker0 rnd0 world1 ''ubuntu:18.04''
                     (Some ''curl,nano'') None None ''random'' True ''dockerfile''))
       = [Echo (Some ''# base.j2 ubuntu:18.04 builtwith=dugaire; # apt.j2 curl nano; '')]"
    unfolding e by (elim conjE)
  from t a have s: "sublist ''ubuntu:18.04''
         (build_dockerfile util0 ''ubuntu:18.04'' (Some ''curl,nano'') None None)"
    by blast
  from t a b have n: "build_dockerfile util0 ''ubuntu:18.04'' (Some ''curl,nano'') None None \<noteq> []"
    by blast
  from t have i: "written world1 (snd (build util0 docker0 rnd0 world1 ''ubuntu:18.04''
                     (Some ''curl,nano'') None None ''random'' True ''image-id'')) = [Echo None]"
    by (elim conjE)
  show ?thesis
    by (intro conjI a b c o s n i)
qed

subsection \<open>The package lists\<close>

text \<open>
  Claim C6. Let the caller give the packages \<open>ps\<close>, none of which holds a comma, joined
  with commas, the joined string not being empty. Then the argument handed to the apt
  template is \<open>ps\<close> joined with single spaces: the same packages in the same order, none
  dropped, none moved. The apt fragment is the template rendered on this argument and
  stands in the text, and so does the argument itself when the template embeds its
  variable \<^verbatim>\<open>packages\<close>. The same holds for \<^verbatim>\<open>--pip3\<close> and the pip template.
\<close>

theorem packages_joined_in_caller_order:
  assumes "\<forall>p\<in>set ps. CHR '','' \<notin> set p" and "join '','' ps \<noteq> []"
  shows "replace (join '','' ps) '','' '' '' = join '' '' ps
       \<and> sublist (get_template u ''apt.j2'' [(''packages'', join '' '' ps)])
           (build_dockerfile u from' (Some (join '','' ps)) pip3 with_kubectl)
       \<and> (embeds (get_template u ''apt.j2'') ''packages'' \<longrightarrow>
            sublist (join '' '' ps)
              (build_dockerfile u from' (Some (join '','' ps)) pip3 with_kubectl))
       \<and> sublist (get_template u ''pip3.j2'' [(''packages'', join '' '' ps)])
           (build_dockerfile u from' apt (Some (join '','' ps)) with_kubectl)
       \<and> (embeds (get_template u ''pip3.j2'') ''packages'' \<longrightarrow>
            sublist (join '' '' ps)
              (build_dockerfile u from' apt (Some (join '','' ps)) with_kubectl))"
proof -
  have r: "replace (join '','' ps) '','' '' '' = join '' '' ps"
    using assms(1) by (rule replace_join)
  have t: "truthy (Some (join '','' ps))"
    using assms(2) by (simp add: truthy_def)
  have fa: "fragment u from' (Some (join '','' ps)) pip3 with_kubectl Apt
              = get_template u ''apt.j2'' [(''packages'', join '' '' ps)]"
    by (simp add: fragment_def val_def r)
  have fp: "fragment u from' apt (Some (join '','' ps)) with_kubectl Pip
              = get_template u ''pip3.j2'' [(''packages'', join '' '' ps)]"
    by (simp add: fragment_def val_def r)
  have a1: "sublist (get_template u ''apt.j2'' [(''packages'', join '' '' ps)])
              (build_dockerfile u from' (Some (join '','' ps)) pip3 with_kubectl)"
    using apt_fragment_sublist[OF t, of u from' pip3 with_kubectl] unfolding fa .
  have p1: "sublist (get_template u ''pip3.j2'' [(''packages'', join '' '' ps)])
              (build_dockerfile u from' apt (Some (join '','' ps)) with_kubectl)"
    using pip_fragment_sublist[OF t, of u from' apt with_kubectl] unfolding fp .
  have a2: "embeds (get_template u ''apt.j2'') ''packages'' \<longrightarrow>
            sublist (join '' '' ps)
              (build_dockerfile u from' (Some (join '','' ps)) pip3 with_kubectl)"
    using sublist_order.order_trans[OF
        embeds_sublist[of "get_template u ''apt.j2''" "''packages''" "join '' '' ps"] a1]
    by blast
  have p2: "embeds (get_template u ''pip3.j2'') ''packages'' \<longrightarrow>
            sublist (join '' '' ps)
              (build_dockerfile u from' apt (Some (join '','' ps)) with_kubectl)"
    using sublist_order.order_trans[OF
        embeds_sublist[of "get_template u ''pip3.j2''" "''packages''" "join '' '' ps"] p1]
    by blast
  show ?thesis
    by (intro conjI r a1 a2 p1 p2)
qed

theorem packages_joined_in_caller_order_witness:
  "CHR '','' \<notin> set ''vim'' \<and> CHR '','' \<notin> set ''curl''
   \<and> join '','' [''vim'', ''curl'', ''vim''] \<noteq> []
   \<and> embeds (get_template util0 ''apt.j2'') ''packages''
   \<and> embeds (get_template util0 ''pip3.j2'') ''packages''
   \<and> join '','' [''vim'', ''curl'', ''vim''] = ''vim,curl,vim''
   \<and> replace ''vim,curl,vim'' '','' '' '' = ''vim curl vim''
   \<and> sublist ''vim curl vim''
        (build_dockerfile util0 ''ubuntu:18.04'' (Some ''vim,curl,vim'') None None)
   \<and> sublist ''vim curl vim''
        (build_dockerfile util0 ''ubuntu:18.04'' None (Some ''vim,curl,vim'') None)"
proof -
  have a1: "CHR '','' \<notin> set ''vim''" and a2: "CHR '','' \<notin> set ''curl''"
    by simp_all
  then have a: "\<forall>p\<in>set [''vim'', ''curl'', ''vim'']. CHR '','' \<notin> set p" by simp
  have b: "join '','' [''vim'', ''curl'', ''vim''] \<noteq> []" by simp
  have c: "embeds (get_template util0 ''apt.j2'') ''packages''" by (rule embeds_util0)
  have d: "embeds (get_template util0 ''pip3.j2'') ''packages''" by (rule embeds_util0)
  have j: "join '','' [''vim'', ''curl'', ''vim''] = ''vim,curl,vim''" by simp
  have k: "join '' '' [''vim'', ''curl'', ''vim''] = ''vim curl vim''" by simp
  note t = packages_joined_in_caller_order[OF a b, where u = util0
      and from' = "''ubuntu:18.04''"
      and apt = None and ?pip3.0 = None and with_kubectl = None, unfolded j k]
  from t have r: "replace ''vim,curl,vim'' '','' '' '' = ''vim curl vim''" by (elim conjE)
  from t c have s1: "sublist ''vim curl vim''
        (build_dockerfile util0 ''ubuntu:18.04'' (Some ''vim,curl,vim'') None None)"
    by blast
  from t d have s2: "sublist ''vim curl vim''
        (build_dockerfile util0 ''ubuntu:18.04'' None (Some ''vim,curl,vim'') None)"
    by blast
  show ?thesis
    by (intro conjI a1 a2 b c d j r s1 s2)
qed

subsection \<open>The image name\<close>

text \<open>
  Claim C7. In a run that builds (no \<^verbatim>\<open>--dry-run\<close>, the client can be created), the
  sentinel name \<^verbatim>\<open>random\<close> makes the command read the random source twice, the two next
  reads, and submit the text under the tag made of the two reads; any other name is
  submitted unchanged, and nothing is read. No name is generated outside the build step:
  a dry run reads nothing and calls nothing, and a run whose client cannot be created
  ends with that exception before anything is read.
\<close>

theorem random_name_only_at_build:
  "(from_env d = None \<and> name = ''random'' \<longrightarrow>
      docker_calls (snd (build u d rnd w from' apt pip3 with_kubectl name False output))
        = docker_calls w @
          [FromEnv,
           ImagesBuild (build_dockerfile u from' apt pip3 with_kubectl)
             (''dug-'' @ take 8 (uuid_str (uuid4 (rnd (urandom_reads w)))) @ '':''
                @ take 8 (uuid_str (uuid4 (rnd (urandom_reads w + 1)))))]
      \<and> urandom_reads (snd (build u d rnd w from' apt pip3 with_kubectl name False output))
        = urandom_reads w + 2)
   \<and> (from_env d = None \<and> name \<noteq> ''random'' \<longrightarrow>
      docker_calls (snd (build u d rnd w from' apt pip3 with_kubectl name False output))
        = docker_calls w @
          [FromEnv, ImagesBuild (build_dockerfile u from' apt pip3 with_kubectl) name]
      \<and> urandom_reads (snd (build u d rnd w from' apt pip3 with_kubectl name False output))
        = urandom_reads w)
   \<and> (from_env d = Some msg \<longrightarrow>
      build u d rnd w from' apt pip3 with_kubectl name False output
        = (Some (DockerException msg), w\<lparr>docker_calls := docker_calls w @ [FromEnv]\<rparr>))
   \<and> urandom_reads (snd (build u d rnd w from' apt pip3 with_kubectl name True output))
        = urandom_reads w
   \<and> docker_calls (snd (build u d rnd w from' apt pip3 with_kubectl name True output))
        = docker_calls w"
proof -
  have r: "from_env d = None \<and> name = ''random'' \<longrightarrow>
      docker_calls (snd (build u d rnd w from' apt pip3 with_kubectl name False output))
        = docker_calls w @
          [FromEnv,
           ImagesBuild (build_dockerfile u from' apt pip3 with_kubectl)
             (''dug-'' @ take 8 (uuid_str (uuid4 (rnd (urandom_reads w)))) @ '':''
                @ take 8 (uuid_str (uuid4 (rnd (urandom_reads w + 1)))))]
      \<and> urandom_reads (snd (build u d rnd w from' apt pip3 with_kubectl name False output))
        = urandom_reads w + 2"
    by (simp add: build_submits build_image_name_random call_def)
  have x: "from_env d = None \<and> name \<noteq> ''random'' \<longrightarrow>
      docker_calls (snd (build u d rnd w from' apt pip3 with_kubectl name False output))
        = docker_calls w @
          [FromEnv, ImagesBuild (build_dockerfile u from' apt pip3 with_kubectl) name]
      \<and> urandom_reads (snd (build u d rnd w from' apt pip3 with_kubectl name False output))
        = urandom_reads w"
    by (simp add: build_submits build_image_name_explicit call_def)
  have f: "from_env d = Some msg \<longrightarrow>
      build u d rnd w from' apt pip3 with_kubectl name False output
        = (Some (DockerException msg), w\<lparr>docker_calls := docker_calls w @ [FromEnv]\<rparr>)"
    by (simp add: build_def Let_def call_def)
  have y: "urandom_reads (snd (build u d rnd w from' apt pip3 with_kubectl name True output))
        = urandom_reads w"
    "docker_calls (snd (build u d rnd w from' apt pip3 with_kubectl name True output))
        = docker_calls w"
    by (simp_all add: build_dry_run build_output_effects)
  show ?thesis
    by (intro conjI r x f y)
qed

theorem random_name_only_at_build_witness:
  "from_env docker0 = None
   \<and> docker_calls (snd (build util0 docker0 rnd0 world0 ''ubuntu:18.04'' None None None
                           ''random'' False ''image-id''))
       = [FromEnv, ImagesBuild ''# base.j2 ubuntu:18.04 builtwith=dugaire; ''
                     ''dug-123e4567:fedcba98'']
   \<and> urandom_reads (snd (build util0 docker0 rnd0 world0 ''ubuntu:18.04'' None None None
                             ''random'' False ''image-id'')) = 2
   \<and> docker_calls (snd (build util0 docker0 rnd0 world0 ''ubuntu:18.04'' None None None
                           ''myimage:0.0.1'' False ''image-id''))
       = [FromEnv, ImagesBuild ''# base.j2 ubuntu:18.04 builtwith=dugaire; '' ''myimage:0.0.1'']
   \<and> urandom_reads (snd (build util0 docker0 rnd0 world0 ''ubuntu:18.04'' None None None
                             ''myimage:0.0.1'' False ''image-id'')) = 0
   \<and> from_env (docker0\<lparr>from_env := Some ''no daemon''\<rparr>) = Some ''no daemon''
   \<and> build util0 (docker0\<lparr>from_env := Some ''no daemon''\<rparr>) rnd0 world0 ''ubuntu:18.04''
        None None None ''random'' False ''image-id''
       = (Some (DockerException ''no daemon''), world0\<lparr>docker_calls := [FromEnv]\<rparr>)"
proof -
  have a: "from_env docker0 = None" by (simp add: docker0_def)
  have e: "build_dockerfile util0 ''ubuntu:18.04'' None None None
             = ''# base.j2 ubuntu:18.04 builtwith=dugaire; ''"
    by (simp add: build_dockerfile_def util0_def Let_def)
  have h0: "take 8 (uuid_str (uuid4 (rnd0 0))) = ''123e4567''"
    unfolding rnd0_def using uuid_str_example by simp
  have v1: "uuid4 0xfedcba9876543210fedcba9876543210 = 0xfedcba9876544210bedcba9876543210"
    by (simp add: uuid4_def Let_def)
  have "uuid_str 0xfedcba9876544210bedcba9876543210 = ''fedcba98-7654-4210-bedc-ba9876543210''"
    by (simp add: uuid_str_def Let_def hex032_def hex_digit_def
          upt_rec[of _ "numeral _"] drop_bit_eq_div unat_div unat_numeral)
  then have h1: "take 8 (uuid_str (uuid4 (rnd0 (0 + 1)))) = ''fedcba98''"
    unfolding rnd0_def using v1 by simp
  have z: "urandom_reads world0 = 0" "docker_calls world0 = []"
    by (simp_all add: world0_def)
  note r = random_name_only_at_build[where d = docker0 and u = util0 and rnd = rnd0
      and w = world0
      and from' = "''ubuntu:18.04''" and apt = None and ?pip3.0 = None and with_kubectl = None
      and name = "''random''" and ?output = "''image-id''", unfolded e z h0 h1]
  note x = random_name_only_at_build[where d = docker0 and u = util0 and rnd = rnd0
      and w = world0
      and from' = "''ubuntu:18.04''" and apt = None and ?pip3.0 = None and with_kubectl = None
      and name = "''myimage:0.0.1''" and ?output = "''image-id''", unfolded e z]
  note f = random_name_only_at_build[where d = "docker0\<lparr>from_env := Some ''no daemon''\<rparr>"
      and msg = "''no daemon''" and u = util0 and rnd = rnd0 and w = world0
      and from' = "''ubuntu:18.04''" and apt = None and ?pip3.0 = None and with_kubectl = None
      and name = "''random''" and ?output = "''image-id''", unfolded z]
  from r a have r1: "docker_calls (snd (build util0 docker0 rnd0 world0 ''ubuntu:18.04'' None
                     None None ''random'' False ''image-id''))
       = [FromEnv, ImagesBuild ''# base.j2 ubuntu:18.04 builtwith=dugaire; ''
                     ''dug-123e4567:fedcba98'']"
    by simp
  from r a have r2: "urandom_reads (snd (build util0 docker0 rnd0 world0 ''ubuntu:18.04'' None
                     None None ''random'' False ''image-id'')) = 2"
    by simp
  from x a have x1: "docker_calls (snd (build util0 docker0 rnd0 world0 ''ubuntu:18.04'' None
                     None None ''myimage:0.0.1'' False ''image-id''))
       = [FromEnv, ImagesBuild ''# base.j2 ubuntu:18.04 builtwith=dugaire; '' ''myimage:0.0.1'']"
    by simp
  from x a have x2: "urandom_reads (snd (build util0 docker0 rnd0 world0 ''ubuntu:18.04'' None
                     None None ''myimage:0.0.1'' False ''image-id'')) = 0"
    by simp
  have g: "from_env (docker0\<lparr>from_env := Some ''no daemon''\<rparr>) = Some ''no daemon''"
    by simp
  from f g have f1: "build util0 (docker0\<lparr>from_env := Some ''no daemon''\<rparr>) rnd0 world0
        ''ubuntu:18.04'' None None None ''random'' False ''image-id''
       = (Some (DockerException ''no daemon''), world0\<lparr>docker_calls := [FromEnv]\<rparr>)"
    by simp
  show ?thesis
    by (intro conjI a r1 r2 x1 x2 g f1)
qed

text \<open>
  Claim C10. When a random name is generated (the name is \<^verbatim>\<open>random\<close>, no dry run, the
  client can be created), the tag submitted has the shape \<^verbatim>\<open>dug-\<close>, eight characters, a
  colon, eight characters: 21 characters in all. The two segments are the first eight
  characters of the textual form of two UUIDs drawn one after the other, and are
  hexadecimal digits.
\<close>

theorem random_tag_shape:
  assumes "from_env d = None"
  shows "(let s1 = take 8 (uuid_str (uuid4 (rnd (urandom_reads w))));
              s2 = take 8 (uuid_str (uuid4 (rnd (urandom_reads w + 1))))
          in last (docker_calls
                     (snd (build u d rnd w from' apt pip3 with_kubectl ''random'' False output)))
               = ImagesBuild (build_dockerfile u from' apt pip3 with_kubectl)
                   (''dug-'' @ s1 @ '':'' @ s2)
             \<and> length s1 = 8 \<and> length s2 = 8
             \<and> set s1 \<subseteq> set ''0123456789abcdef'' \<and> set s2 \<subseteq> set ''0123456789abcdef''
             \<and> length (''dug-'' @ s1 @ '':'' @ s2) = 21)"
proof -
  have l: "length (take 8 (uuid_str i)) = 8" for i
    by (simp add: take8_uuid_str length_hex032)
  have h: "set (take 8 (uuid_str i)) \<subseteq> set ''0123456789abcdef''" for i
  proof -
    have "set (take 8 (hex032 i)) \<subseteq> set (hex032 i)" by (rule set_take_subset)
    then show ?thesis
      using set_hex032[of i] unfolding take8_uuid_str by (rule subset_trans)
  qed
  have c: "last (docker_calls
                   (snd (build u d rnd w from' apt pip3 with_kubectl ''random'' False output)))
             = ImagesBuild (build_dockerfile u from' apt pip3 with_kubectl)
                 (''dug-'' @ take 8 (uuid_str (uuid4 (rnd (urandom_reads w)))) @ '':''
                    @ take 8 (uuid_str (uuid4 (rnd (urandom_reads w + 1)))))"
    using assms by (simp add: build_submits build_image_name_random call_def)
  show ?thesis
    unfolding Let_def using c l h by simp
qed

theorem random_tag_shape_witness:
  "from_env docker0 = None
   \<and> (let s1 = take 8 (uuid_str (uuid4 (rnd0 (urandom_reads world1))));
           s2 = take 8 (uuid_str (uuid4 (rnd0 (urandom_reads world1 + 1))))
       in last (docker_calls
                  (snd (build util0 docker0 rnd0 world1 ''ubuntu:18.04'' (Some ''curl'') None None
                          ''random'' False ''image-name'')))
            = ImagesBuild (build_dockerfile util0 ''ubuntu:18.04'' (Some ''curl'') None None)
                (''dug-'' @ s1 @ '':'' @ s2)
          \<and> length s1 = 8 \<and> length s2 = 8
          \<and> set s1 \<subseteq> set ''0123456789abcdef'' \<and> set s2 \<subseteq> set ''0123456789abcdef''
          \<and> length (''dug-'' @ s1 @ '':'' @ s2) = 21)"
proof -
  have a: "from_env docker0 = None" by (simp add: docker0_def)
  show ?thesis
    by (rule conjI[OF a random_tag_shape[OF a, where u = util0 and rnd = rnd0 and w = world1
          and from' = "''ubuntu:18.04''" and apt = "Some ''curl''" and ?pip3.0 = None
          and with_kubectl = None and ?output = "''image-name''"]])
qed

subsection \<open>The command \<^verbatim>\<open>list\<close>\<close>

text \<open>
  Claim C8. Let the client be created and the query for the images that carry the marker
  label answer the list \<open>images\<close>. The command ends normally. With no image it writes the
  message that no images were found, and no table. With at least one image it prints the
  table made by \<^verbatim>\<open>custom_tabulate\<close> from one row per image, a row being an identifier and
  the tags, under the two headers \<^verbatim>\<open>Image ID\<close> and \<^verbatim>\<open>Image tags\<close>, and it does not write the
  message.
\<close>

theorem list_none_found_or_table:
  assumes "from_env d = None"
    and "images_list d [get_dugaire_image_label u None] = Inr images"
  shows "fst (list_cmd u d w short) = None
       \<and> (images = [] \<longrightarrow>
            written w (snd (list_cmd u d w short))
              = [Echo (Some ''No images built with dugaire found.'')])
       \<and> (images \<noteq> [] \<longrightarrow>
            written w (snd (list_cmd u d w short))
              = [Print (custom_tabulate u (list_rows short images [])
                          [''Image ID'', ''Image tags''])]
          \<and> length (list_rows short images []) = length images
          \<and> map snd (list_rows short images []) = map img_tags images
          \<and> Echo (Some ''No images built with dugaire found.'')
              \<notin> set (written w (snd (list_cmd u d w short))))"
  using assms
  by (simp add: list_cmd_def Let_def call_def written_def echo_def print_def list_rows_map
                comp_def)

theorem list_none_found_or_table_witness:
  "from_env docker1 = None
   \<and> images_list docker1 [get_dugaire_image_label util0 None] = Inr []
   \<and> written world0 (snd (list_cmd util0 docker1 world0 True))
       = [Echo (Some ''No images built with dugaire found.'')]
   \<and> from_env docker0 = None
   \<and> images_list docker0 [get_dugaire_image_label util0 None] = Inr [image0]
   \<and> [image0] \<noteq> []
   \<and> written world0 (snd (list_cmd util0 docker0 world0 True))
       = [Print (custom_tabulate util0 (list_rows True [image0] [])
                   [''Image ID'', ''Image tags''])]
   \<and> list_rows True [image0] [] = [(''0123456789ab'', [''dug-1a2b3c4d:5e6f7a8b''])]"
proof -
  have a1: "from_env docker1 = None" by (simp add: docker1_def)
  have b1: "images_list docker1 [get_dugaire_image_label util0 None] = Inr []"
    by (simp add: docker1_def)
  have a0: "from_env docker0 = None" by (simp add: docker0_def)
  have b0: "images_list docker0 [get_dugaire_image_label util0 None] = Inr [image0]"
    by (simp add: docker0_def)
  have n: "[image0] \<noteq> []" by simp
  from list_none_found_or_table[OF a1 b1, where w = world0 and short = True]
  have e: "written world0 (snd (list_cmd util0 docker1 world0 True))
       = [Echo (Some ''No images built with dugaire found.'')]"
    by simp
  from list_none_found_or_table[OF a0 b0, where w = world0 and short = True] n
  have t: "written world0 (snd (list_cmd util0 docker0 world0 True))
       = [Print (custom_tabulate util0 (list_rows True [image0] [])
                   [''Image ID'', ''Image tags''])]"
    by blast
  have r: "list_rows True [image0] [] = [(''0123456789ab'', [''dug-1a2b3c4d:5e6f7a8b''])]"
    by (simp add: image0_def Let_def)
  show ?thesis
    by (intro conjI a1 b1 e a0 b0 n t r)
qed

text \<open>
  Claim C9. With \<^verbatim>\<open>short\<close> on (the default of the option) and images whose identifier is
  \<^verbatim>\<open>sha256:\<close> and the 64 hexadecimal digits of a digest, as the runtime names them, the
  identifier of a row is the identifier without \<^verbatim>\<open>sha256:\<close>, cut to its first 12
  characters, and it has 12 characters. With \<^verbatim>\<open>short\<close> off the identifier of a row is the
  full identifier, whatever the identifiers are.
\<close>

theorem list_short_identifier:
  "((\<forall>img\<in>set images. sha256_id (img_id img)) \<longrightarrow>
      map fst (list_rows True images []) = map (\<lambda>img. take 12 (drop 7 (img_id img))) images
      \<and> (\<forall>r\<in>set (list_rows True images []). length (fst r) = 12))
   \<and> map fst (list_rows False images []) = map img_id images"
proof -
  have a: "map fst (list_rows True images []) = map (\<lambda>img. take 12 (drop 7 (img_id img))) images"
    if "\<forall>img\<in>set images. sha256_id (img_id img)"
    using that by (simp add: list_rows_map sha256_id_short(1) comp_def)
  have b: "\<forall>r\<in>set (list_rows True images []). length (fst r) = 12"
    if h: "\<forall>img\<in>set images. sha256_id (img_id img)"
  proof
    fix r assume "r \<in> set (list_rows True images [])"
    then obtain img where "img \<in> set images"
      and "fst r = take 12 (replace (img_id img) ''sha256:'' [])"
      by (auto simp add: list_rows_map)
    with h show "length (fst r) = 12"
      using sha256_id_short(2)[of "img_id img"] by simp
  qed
  have c: "map fst (list_rows False images []) = map img_id images"
    by (simp add: list_rows_map comp_def)
  show ?thesis using a b c by blast
qed

theorem list_short_identifier_witness:
  "sha256_id (img_id image0)
   \<and> map fst (list_rows True [image0] []) = [''0123456789ab'']
   \<and> map (\<lambda>r. length (fst r)) (list_rows True [image0] []) = [12]
   \<and> map fst (list_rows False [image0] [])
       = [''sha256:0123456789abcdef0123456789abcdef0123456789abcdef0123456789abcdef'']"
proof -
  have i: "sha256_id (img_id image0)"
    by (simp add: image0_def sha256_id_def)
  then have a: "\<forall>img\<in>set [image0]. sha256_id (img_id img)"
    by simp
  note t = list_short_identifier[where images = "[image0]"]
  from t a have s: "map fst (list_rows True [image0] []) = [''0123456789ab'']"
    by (simp add: image0_def)
  from t a have "\<forall>r\<in>set (list_rows True [image0] []). length (fst r) = 12"
    by blast
  then have l: "map (\<lambda>r. length (fst r)) (list_rows True [image0] []) = [12]"
    by (simp add: list_rows_map)
  from t have f: "map fst (list_rows False [image0] [])
       = [''sha256:0123456789abcdef0123456789abcdef0123456789abcdef0123456789abcdef'']"
    by (simp add: image0_def)
  show ?thesis
    by (intro conjI i s l f)
qed

end
